theory Spec2Isabelle
  imports Main "HOL-Library.Multiset"
begin

section \<open>Card catalog types (types/card.ts)\<close>

text \<open>
  The string-literal unions of \<^verbatim>\<open>types/card.ts\<close> are datatypes; a field typed
  \<^verbatim>\<open>T | null\<close> is a \<open>T option\<close> with \<open>None\<close> for \<^verbatim>\<open>null\<close>.
  \<^verbatim>\<open>Sottocategoria = 'classi' | 'abilita' | null\<close> is \<open>Sottocategoria option\<close>.
  The field \<^verbatim>\<open>id\<close> of a card is \<open>card_id\<close> here. The numbers of the manifest (level,
  threshold, page) are integers.
\<close>

datatype Categoria = Origine | Comunita | DominioCat

datatype Sottocategoria = Classi | Abilita

datatype Dominio =
  Arcano | Lama | Osso | Codice | Grazia | Mezzanotte | Saggio | Splendore | Valore

record CardIndex =
  card_id :: string
  nome :: string
  categoria :: Categoria
  dominio :: "Dominio option"
  sottocategoria :: "Sottocategoria option"
  tipo_carta :: "string option"
  livello :: "int option"
  soglia :: "int option"
  pagina :: int
  img :: string
  json :: string

section \<open>JavaScript sets\<close>

text \<open>
  A JavaScript \<^verbatim>\<open>Set\<close> holds its members without duplicates and iterates them in
  insertion order. It is the type of duplicate-free lists: \<open>elems S\<close> is the order in
  which \<^verbatim>\<open>[...S]\<close> and \<^verbatim>\<open>for (const x of S)\<close> visit the members.
\<close>

typedef 'a jsset = "{xs :: 'a list. distinct xs}"
  morphisms elems Abs_jsset
  by (rule exI [of _ "[]"]) simp

setup_lifting type_definition_jsset

text \<open>\<^verbatim>\<open>new Set()\<close>\<close>

lift_definition js_empty :: "'a jsset" is "[]"
  by simp

text \<open>\<^verbatim>\<open>S.add(x)\<close>: a new member goes to the end, a present one stays where it is.\<close>

lift_definition js_add :: "'a \<Rightarrow> 'a jsset \<Rightarrow> 'a jsset"
  is "\<lambda>x xs. if x \<in> set xs then xs else xs @ [x]"
  by simp

text \<open>\<^verbatim>\<open>S.delete(x)\<close>\<close>

lift_definition js_delete :: "'a \<Rightarrow> 'a jsset \<Rightarrow> 'a jsset"
  is "\<lambda>x xs. removeAll x xs"
  by (simp add: distinct_removeAll)

text \<open>\<^verbatim>\<open>S.has(x)\<close>\<close>

definition js_has :: "'a \<Rightarrow> 'a jsset \<Rightarrow> bool" where
  "js_has x S = (x \<in> set (elems S))"

text \<open>\<^verbatim>\<open>new Set(xs)\<close> for an array \<open>xs\<close>: the members are added one by one.\<close>

definition new_Set :: "'a list \<Rightarrow> 'a jsset" where
  "new_Set xs = foldl (\<lambda>S x. js_add x S) js_empty xs"

section \<open>Selection state (stores/character.ts)\<close>

text \<open>
  The store of \<^verbatim>\<open>stores/character.ts\<close> holds \<^verbatim>\<open>className\<close>,
  \<^verbatim>\<open>selectedDomains\<close>, \<^verbatim>\<open>selectedAbilities\<close>, \<^verbatim>\<open>selectedOrigin\<close> and
  \<^verbatim>\<open>selectedCommunity\<close>; the later version of the store adds \<^verbatim>\<open>characterName\<close> and
  \<^verbatim>\<open>selectedSubclass\<close>. The second record extends the first, so an action whose text
  is the same in both versions is one function on every extension of the first record.
  The catalog \<^verbatim>\<open>allCards\<close> is never written by an action and is passed as an argument.
\<close>

record selection =
  className :: "string option"
  selectedDomains :: "Dominio list"
  selectedAbilities :: "string jsset"
  selectedOrigin :: "string option"
  selectedCommunity :: "string option"

record character = selection +
  characterName :: string
  selectedSubclass :: "string option"

text \<open>The values the refs are created with (and that \<^verbatim>\<open>reset()\<close> restores).\<close>

definition initial_selection :: selection where
  "initial_selection =
     \<lparr> className = None, selectedDomains = [], selectedAbilities = js_empty,
       selectedOrigin = None, selectedCommunity = None \<rparr>"

definition initial_character :: character where
  "initial_character =
     \<lparr> className = None, selectedDomains = [], selectedAbilities = js_empty,
       selectedOrigin = None, selectedCommunity = None,
       characterName = [], selectedSubclass = None \<rparr>"

subsection \<open>toggleDomain\<close>

text \<open>\<^verbatim>\<open>xs.indexOf(x)\<close>: the first position of \<open>x\<close>, or \<open>-1\<close>.\<close>

fun indexOf :: "'a list \<Rightarrow> 'a \<Rightarrow> int" where
  "indexOf [] x = -1"
| "indexOf (y # ys) x =
     (if y = x then 0 else (let i = indexOf ys x in if i < 0 then -1 else i + 1))"

text \<open>\<^verbatim>\<open>xs.splice(i, 1)\<close> for \<open>0 \<le> i\<close>: removes the element at position \<open>i\<close>, if any.\<close>

definition splice1 :: "nat \<Rightarrow> 'a list \<Rightarrow> 'a list" where
  "splice1 i xs = take i xs @ drop (Suc i) xs"

text \<open>
  The loop of \<^verbatim>\<open>toggleDomain\<close> over the selected abilities:
  \<^verbatim>\<open>
  for (const id of selectedAbilities.value) {
    const card = allCards.value.find(c => c.id === id)
    if (card?.dominio === dominio) selectedAbilities.value.delete(id)
  }
  \<close>
  The loop deletes only the member it is visiting, so it visits every member the set had
  when the loop started: \<open>ids\<close> is that sequence, \<open>S\<close> the set as deleted from so far.
  \<^verbatim>\<open>card?.dominio === dominio\<close> is false when no card has the id (\<^verbatim>\<open>undefined\<close>) and
  when the card's domain is \<^verbatim>\<open>null\<close>.
\<close>

fun cascade :: "CardIndex list \<Rightarrow> Dominio \<Rightarrow> string list \<Rightarrow> string jsset \<Rightarrow> string jsset" where
  "cascade allCards d [] S = S"
| "cascade allCards d (i # ids) S =
     (case find (\<lambda>c. card_id c = i) allCards of
        None \<Rightarrow> cascade allCards d ids S
      | Some c \<Rightarrow>
          if dominio c = Some d then cascade allCards d ids (js_delete i S)
          else cascade allCards d ids S)"

text \<open>
  \<^verbatim>\<open>
  function toggleDomain(dominio: Dominio) {
    const idx = selectedDomains.value.indexOf(dominio)
    if (idx >= 0) {
      selectedDomains.value.splice(idx, 1)
      for (const id of selectedAbilities.value) { ... }
      selectedAbilities.value = new Set(selectedAbilities.value)
    } else {
      selectedDomains.value.push(dominio)
    }
  }
  \<close>
\<close>

definition toggleDomain ::
  "CardIndex list \<Rightarrow> ('a selection_scheme) \<Rightarrow> Dominio \<Rightarrow> ('a selection_scheme)" where
  "toggleDomain allCards s d =
     (let idx = indexOf (selectedDomains s) d in
      if idx \<ge> 0 then
        s\<lparr> selectedDomains := splice1 (nat idx) (selectedDomains s),
           selectedAbilities :=
             new_Set (elems (cascade allCards d (elems (selectedAbilities s)) (selectedAbilities s))) \<rparr>
      else
        s\<lparr> selectedDomains := selectedDomains s @ [d] \<rparr>)"

subsection \<open>The other actions\<close>

text \<open>
  The tables of \<^verbatim>\<open>types/card.ts\<close> are object literals, so \<^verbatim>\<open>TABLE[key]\<close> finds the
  properties written in the literal and, for any other key, what the object inherits
  from \<^verbatim>\<open>Object.prototype\<close>: a function for eleven names, the prototype object itself for
  \<^verbatim>\<open>__proto__\<close>, and \<^verbatim>\<open>undefined\<close> for every other key.
\<close>

definition Object_prototype_names :: "string list" where
  "Object_prototype_names =
     [ ''constructor'', ''hasOwnProperty'', ''isPrototypeOf'', ''propertyIsEnumerable'',
       ''toLocaleString'', ''toString'', ''valueOf'', ''__proto__'',
       ''__defineGetter__'', ''__defineSetter__'', ''__lookupGetter__'', ''__lookupSetter__'' ]"

text \<open>
  What a read of a table typed \<^verbatim>\<open>Record<string, T>\<close> can hold at run time: a value of
  \<open>T\<close>, or the member of \<^verbatim>\<open>Object.prototype\<close> of the given name. Two members are the
  same object exactly when their names are the same; a member is not \<^verbatim>\<open>null\<close>, not a
  string and not iterable.
\<close>

datatype 'a js_member = Val 'a | Proto string

text \<open>\<^verbatim>\<open>TABLE[key]\<close> for a string \<open>key\<close>, with \<open>None\<close> for \<^verbatim>\<open>undefined\<close>.\<close>

definition plain_get :: "(string \<times> 'a) list \<Rightarrow> string \<Rightarrow> 'a js_member option" where
  "plain_get tbl k =
     (case map_of tbl k of
        Some v \<Rightarrow> Some (Val v)
      | None \<Rightarrow> if k \<in> set Object_prototype_names then Some (Proto k) else None)"

text \<open>
  \<^verbatim>\<open>TABLE[key]\<close> for a key that may itself be a member of \<^verbatim>\<open>Object.prototype\<close>: such a
  key is converted to a string (the source text of the function, or
  \<^verbatim>\<open>[object Object]\<close>), which names no property of the table or of its prototype.
\<close>

definition plain_get_member :: "(string \<times> 'a) list \<Rightarrow> string js_member \<Rightarrow> 'a js_member option" where
  "plain_get_member tbl key = (case key of Val k \<Rightarrow> plain_get tbl k | Proto m \<Rightarrow> None)"

text \<open>The exception a spread of a value that is not iterable, or \<^verbatim>\<open>new Set\<close> of one, throws.\<close>

datatype js_error = TypeError

text \<open>The class \<open>\<rightarrow>\<close> domain-pair table \<^verbatim>\<open>CLASS_DOMAINS\<close>.\<close>

definition CLASS_DOMAINS :: "(string \<times> Dominio \<times> Dominio) list" where
  "CLASS_DOMAINS =
     [ (''Bardo'',     (Grazia,     Codice)),
       (''Mago'',      (Codice,     Splendore)),
       (''Serafino'',  (Splendore,  Valore)),
       (''Guardiano'', (Valore,     Lama)),
       (''Guerriero'', (Lama,       Osso)),
       (''Ranger'',    (Osso,       Saggio)),
       (''Druido'',    (Saggio,     Arcano)),
       (''Stregone'',  (Arcano,     Mezzanotte)),
       (''Ladro'',     (Mezzanotte, Grazia)) ]"

text \<open>
  \<^verbatim>\<open>selectClass\<close> of \<^verbatim>\<open>stores/character.ts\<close> (domains are picked by hand afterwards):
  \<^verbatim>\<open>
  className.value = nome
  selectedDomains.value = []
  selectedAbilities.value = new Set()
  \<close>
\<close>

definition selectClass_manual :: "('a selection_scheme) \<Rightarrow> string \<Rightarrow> ('a selection_scheme)" where
  "selectClass_manual s n =
     s\<lparr> className := Some n, selectedDomains := [], selectedAbilities := js_empty \<rparr>"

text \<open>
  \<^verbatim>\<open>selectClass\<close> of the later store (domains are assigned from the table):
  \<^verbatim>\<open>
  className.value     = nome
  selectedSubclass.value = null
  selectedAbilities.value = new Set()
  selectedDomains.value = [...(CLASS_DOMAINS[nome] ?? [])]
  \<close>
  The result is the store after the call and the exception thrown, if any. The first
  three assignments are made in any case. The last spreads the pair of the table, or
  \<^verbatim>\<open>[]\<close> when the lookup is \<^verbatim>\<open>undefined\<close>; when the lookup is an inherited member, which is
  neither nullish nor iterable, the spread throws and \<^verbatim>\<open>selectedDomains\<close> is not assigned.
\<close>

definition selectClass :: "character \<Rightarrow> string \<Rightarrow> character \<times> js_error option" where
  "selectClass s n =
     (let s1 = s\<lparr> className := Some n, selectedSubclass := None, selectedAbilities := js_empty \<rparr>
      in case plain_get CLASS_DOMAINS n of
           None \<Rightarrow> (s1\<lparr> selectedDomains := [] \<rparr>, None)
         | Some (Val (a, b)) \<Rightarrow> (s1\<lparr> selectedDomains := [a, b] \<rparr>, None)
         | Some (Proto m) \<Rightarrow> (s1, Some TypeError))"

definition selectSubclass :: "character \<Rightarrow> string option \<Rightarrow> character" where
  "selectSubclass s n = s\<lparr> selectedSubclass := n \<rparr>"

definition toggleAbility :: "('a selection_scheme) \<Rightarrow> string \<Rightarrow> ('a selection_scheme)" where
  "toggleAbility s i =
     (let S = (if js_has i (selectedAbilities s) then js_delete i (selectedAbilities s)
               else js_add i (selectedAbilities s))
      in s\<lparr> selectedAbilities := new_Set (elems S) \<rparr>)"

definition isSelected :: "('a selection_scheme) \<Rightarrow> string \<Rightarrow> bool" where
  "isSelected s i = js_has i (selectedAbilities s)"

text \<open>\<^verbatim>\<open>function selectOrigin(id: string | null) { selectedOrigin.value = id }\<close>\<close>

definition selectOrigin :: "('a selection_scheme) \<Rightarrow> string option \<Rightarrow> ('a selection_scheme)" where
  "selectOrigin s i = s\<lparr> selectedOrigin := i \<rparr>"

text \<open>\<^verbatim>\<open>function selectCommunity(id: string | null) { selectedCommunity.value = id }\<close>\<close>

definition selectCommunity :: "('a selection_scheme) \<Rightarrow> string option \<Rightarrow> ('a selection_scheme)" where
  "selectCommunity s i = s\<lparr> selectedCommunity := i \<rparr>"

definition setCharacterName :: "character \<Rightarrow> string \<Rightarrow> character" where
  "setCharacterName s n = s\<lparr> characterName := n \<rparr>"

definition reset :: "character \<Rightarrow> character" where
  "reset s = s\<lparr> characterName := [], className := None, selectedSubclass := None,
               selectedDomains := [], selectedAbilities := js_empty,
               selectedOrigin := None, selectedCommunity := None \<rparr>"

section \<open>Derived views (stores/character.ts)\<close>

text \<open>\<^verbatim>\<open>a ?? b\<close>, with \<open>None\<close> for \<^verbatim>\<open>null\<close> and \<^verbatim>\<open>undefined\<close>.\<close>

definition nullish :: "'a option \<Rightarrow> 'a \<Rightarrow> 'a" where
  "nullish a b = (case a of None \<Rightarrow> b | Some x \<Rightarrow> x)"

text \<open>
  A \<^verbatim>\<open>Map\<close> or a plain object used as a dictionary of arrays is a list of
  (key, array) pairs in insertion order. Both loops below have the shape
  \<^verbatim>\<open>if (!m.has(k)) m.set(k, []); m.get(k).push(c)\<close>.
\<close>

definition ensure_bucket :: "'k \<Rightarrow> ('k \<times> 'v list) list \<Rightarrow> ('k \<times> 'v list) list" where
  "ensure_bucket k m = (if map_of m k = None then m @ [(k, [])] else m)"

definition push_bucket :: "'k \<Rightarrow> 'v \<Rightarrow> ('k \<times> 'v list) list \<Rightarrow> ('k \<times> 'v list) list" where
  "push_bucket k c m = map (\<lambda>(k', b). if k' = k then (k', b @ [c]) else (k', b)) m"

definition SUBCLASS_TO_CLASS :: "(string \<times> string) list" where
  "SUBCLASS_TO_CLASS =
     [ (''TROVATORE'', ''Bardo''), (''ORATORE'', ''Bardo''),
       (''SCUOLA DELLA CONOSCENZA'', ''Mago''), (''SCUOLA DELLA GUERRA'', ''Mago''),
       (''EMISSARIO DIVINO'', ''Serafino''), (''SENTINELLA ALATA'', ''Serafino''),
       (''VALOROSO'', ''Guardiano''), (''VENDICATORE'', ''Guardiano''),
       (''CHIAMATA DEL CORAGGIO'', ''Guerriero''), (''CHIAMATA DELLO STERMINATORE'', ''Guerriero''),
       (''FERALE'', ''Ranger''), (''APRIPISTA'', ''Ranger''),
       (''CUSTODE DEGLI ELEMENTI'', ''Druido''), (''CUSTODE DEL RINNOVAMENTO'', ''Druido''),
       (''POTERE ELEMENTALE'', ''Stregone''), (''POTERE PRIMORDIALE'', ''Stregone''),
       (''OMBRA NOTTURNA'', ''Ladro''), (''LADRO'', ''Ladro'') ]"

definition CLASS_DOMAIN_MAP :: "(string \<times> Dominio) list" where
  "CLASS_DOMAIN_MAP =
     [ (''Bardo'', Grazia), (''Mago'', Codice), (''Serafino'', Splendore),
       (''Guardiano'', Valore), (''Guerriero'', Lama), (''Ranger'', Osso),
       (''Druido'', Saggio), (''Stregone'', Arcano), (''Ladro'', Mezzanotte) ]"

text \<open>
  \<^verbatim>\<open>nome\<close> and \<^verbatim>\<open>dominio\<close> of a class are results of table reads, cast without a check.
\<close>

record ClassInfo =
  cls_nome :: "string js_member"
  cls_dominio :: "Dominio js_member"
  cls_cards :: "CardIndex list"
  cls_baseCard :: "CardIndex option"

text \<open>
  The grouping loop of \<^verbatim>\<open>classes\<close>:
  \<^verbatim>\<open>
  for (const c of allCards.value) {
    if (c.sottocategoria !== 'classi') continue
    const clsName = SUBCLASS_TO_CLASS[c.nome] ?? c.nome
    if (!map.has(clsName)) map.set(clsName, [])
    map.get(clsName)!.push(c)
  }
  \<close>
  For a card named like a member of \<^verbatim>\<open>Object.prototype\<close> the key \<^verbatim>\<open>clsName\<close> is that
  member, not a string; the \<^verbatim>\<open>Map\<close> compares keys as values of \<open>js_member\<close> are equal.
\<close>

fun classes_loop ::
  "CardIndex list \<Rightarrow> (string js_member \<times> CardIndex list) list
     \<Rightarrow> (string js_member \<times> CardIndex list) list" where
  "classes_loop [] m = m"
| "classes_loop (c # cs) m =
     (if sottocategoria c \<noteq> Some Classi then classes_loop cs m
      else
        let clsName = nullish (plain_get SUBCLASS_TO_CLASS (nome c)) (Val (nome c))
        in classes_loop cs (push_bucket clsName c (ensure_bucket clsName m)))"

text \<open>
  \<^verbatim>\<open>
  [...map.entries()].map(([nome, cards]) => ({
    nome,
    dominio: (CLASS_DOMAIN_MAP[nome] ?? 'arcano') as Dominio,
    cards: cards.sort((a, b) => a.pagina - b.pagina),
    baseCard: cards.find(c => c.tipo_carta === 'privilegio') ?? cards[0],
  }))
  \<close>
  \<^verbatim>\<open>sort\<close> is stable and sorts the array in place, so \<^verbatim>\<open>baseCard\<close> is looked up in
  the sorted array; \<^verbatim>\<open>cards[0]\<close> of an empty array is \<^verbatim>\<open>undefined\<close>.
\<close>

definition classInfo :: "string js_member \<times> CardIndex list \<Rightarrow> ClassInfo" where
  "classInfo e =
     (let sorted_cards = sort_key pagina (snd e) in
      \<lparr> cls_nome = fst e,
        cls_dominio = nullish (plain_get_member CLASS_DOMAIN_MAP (fst e)) (Val Arcano),
        cls_cards = sorted_cards,
        cls_baseCard =
          (case find (\<lambda>c. tipo_carta c = Some ''privilegio'') sorted_cards of
             Some c \<Rightarrow> Some c
           | None \<Rightarrow> (case sorted_cards of [] \<Rightarrow> None | c # _ \<Rightarrow> Some c)) \<rparr>)"

definition classes :: "CardIndex list \<Rightarrow> ClassInfo list" where
  "classes allCards = map classInfo (classes_loop allCards [])"

text \<open>
  \<^verbatim>\<open>classes.value.find(c => c.nome === className.value) ?? null\<close>. The class name of the
  store is a string or \<^verbatim>\<open>null\<close>; \<^verbatim>\<open>===\<close> holds only for a \<^verbatim>\<open>nome\<close> that is the same
  string.
\<close>

definition activeClass :: "CardIndex list \<Rightarrow> ('a selection_scheme) \<Rightarrow> ClassInfo option" where
  "activeClass allCards s =
     find (\<lambda>c. Some (cls_nome c) = map_option Val (className s)) (classes allCards)"

text \<open>
  \<^verbatim>\<open>classCards\<close> of the later store; a selected subclass narrows the cards, and the
  test \<^verbatim>\<open>if (selectedSubclass.value)\<close> is false for \<^verbatim>\<open>null\<close> and for the empty string.
  \<^verbatim>\<open>
  const all = activeClass.value?.cards ?? []
  if (selectedSubclass.value) {
    return all.filter(c => c.nome === selectedSubclass.value)
  }
  return all
  \<close>
\<close>

definition classCards :: "CardIndex list \<Rightarrow> character \<Rightarrow> CardIndex list" where
  "classCards allCards s =
     (let all = (case activeClass allCards s of None \<Rightarrow> [] | Some cl \<Rightarrow> cls_cards cl) in
      case selectedSubclass s of
        None \<Rightarrow> all
      | Some sub \<Rightarrow> if sub = [] then all else filter (\<lambda>c. nome c = sub) all)"

text \<open>
  \<^verbatim>\<open>
  allCards.value.filter(
    c => c.sottocategoria === 'abilita' &&
         selectedDomains.value.includes(c.dominio as Dominio))
  \<close>
  The cast is erased at run time: the value searched for is \<^verbatim>\<open>c.dominio\<close>, which may
  be \<^verbatim>\<open>null\<close>, and \<^verbatim>\<open>includes\<close> compares it with each element of the array.
\<close>

definition array_includes :: "'a list \<Rightarrow> 'a \<Rightarrow> bool" where
  "array_includes xs x = (x \<in> set xs)"

definition abilityCards :: "CardIndex list \<Rightarrow> ('a selection_scheme) \<Rightarrow> CardIndex list" where
  "abilityCards allCards s =
     filter (\<lambda>c. sottocategoria c = Some Abilita
                \<and> array_includes (map Some (selectedDomains s)) (dominio c)) allCards"

text \<open>
  \<^verbatim>\<open>
  const map: Record<number, CardIndex[]> = {}
  for (const c of abilityCards.value) {
    const lvl = c.livello ?? 0
    if (!map[lvl]) map[lvl] = []
    map[lvl].push(c)
  }
  \<close>
  A bucket, once created, is an array and so truthy: \<^verbatim>\<open>!map[lvl]\<close> holds exactly when
  the key is absent.
\<close>

fun cardsByLevel_loop ::
  "CardIndex list \<Rightarrow> (int \<times> CardIndex list) list \<Rightarrow> (int \<times> CardIndex list) list" where
  "cardsByLevel_loop [] m = m"
| "cardsByLevel_loop (c # cs) m =
     (let lvl = nullish (livello c) 0
      in cardsByLevel_loop cs (push_bucket lvl c (ensure_bucket lvl m)))"

definition cardsByLevel :: "CardIndex list \<Rightarrow> ('a selection_scheme) \<Rightarrow> (int \<times> CardIndex list) list" where
  "cardsByLevel allCards s = cardsByLevel_loop (abilityCards allCards s) []"

text \<open>
  \<^verbatim>\<open>Object.keys(cardsByLevel.value).map(Number).sort((a, b) => a - b)\<close>.
  \<^verbatim>\<open>Object.keys\<close> lists each key once (here in the order of the pairs; the engine's
  order may differ, and the sort that follows makes the result independent of it);
  \<^verbatim>\<open>Number\<close> reads back the number each key was written from.
\<close>

definition Object_keys :: "('k \<times> 'v) list \<Rightarrow> 'k list" where
  "Object_keys m = map fst m"

definition levels :: "CardIndex list \<Rightarrow> ('a selection_scheme) \<Rightarrow> int list" where
  "levels allCards s = sort (Object_keys (cardsByLevel allCards s))"

section \<open>Save documents (toSave, fromSave)\<close>

text \<open>
  The interface \<^verbatim>\<open>CharacterSave\<close> of \<^verbatim>\<open>types/card.ts\<close>. \<^verbatim>\<open>fromSave\<close> reads
  \<^verbatim>\<open>characterName\<close>, \<^verbatim>\<open>selectedSubclass\<close>, \<^verbatim>\<open>selectedOrigin\<close> and
  \<^verbatim>\<open>selectedCommunity\<close> through \<^verbatim>\<open>??\<close>, since documents written by the earlier
  stores lack them: in the record these four are options, \<open>None\<close> standing for a field
  that is \<^verbatim>\<open>null\<close> or absent.
\<close>

record CharacterSave =
  version :: nat
  exportDate :: string
  sv_characterName :: "string option"
  sv_className :: string
  sv_selectedSubclass :: "string option"
  classCardIds :: "string list"
  sv_selectedDomains :: "Dominio list"
  sv_selectedAbilities :: "string list"
  sv_selectedOrigin :: "string option"
  sv_selectedCommunity :: "string option"

text \<open>
  \<^verbatim>\<open>
  function toSave(): CharacterSave {
    return {
      version: 1,
      exportDate: new Date().toISOString(),
      characterName: characterName.value,
      className: className.value ?? '',
      selectedSubclass: selectedSubclass.value,
      classCardIds: classCards.value.map(c => c.id),
      selectedDomains: [...selectedDomains.value],
      selectedAbilities: [...selectedAbilities.value],
      selectedOrigin: selectedOrigin.value,
      selectedCommunity: selectedCommunity.value,
    }
  }
  \<close>
  The clock reading \<^verbatim>\<open>new Date().toISOString()\<close> is the argument \<open>now\<close>.
\<close>

definition toSave :: "string \<Rightarrow> CardIndex list \<Rightarrow> character \<Rightarrow> CharacterSave" where
  "toSave now allCards s =
     \<lparr> version = 1,
       exportDate = now,
       sv_characterName = Some (characterName s),
       sv_className = nullish (className s) [],
       sv_selectedSubclass = selectedSubclass s,
       classCardIds = map card_id (classCards allCards s),
       sv_selectedDomains = selectedDomains s,
       sv_selectedAbilities = elems (selectedAbilities s),
       sv_selectedOrigin = selectedOrigin s,
       sv_selectedCommunity = selectedCommunity s \<rparr>"

text \<open>
  \<^verbatim>\<open>
  function fromSave(save: CharacterSave) {
    characterName.value = save.characterName ?? ''
    className.value = save.className
    selectedSubclass.value = save.selectedSubclass ?? null
    selectedDomains.value = save.selectedDomains
    selectedAbilities.value = new Set(save.selectedAbilities)
    selectedOrigin.value = save.selectedOrigin ?? null
    selectedCommunity.value = save.selectedCommunity ?? null
  }
  \<close>
\<close>

definition fromSave :: "character \<Rightarrow> CharacterSave \<Rightarrow> character" where
  "fromSave s save =
     s\<lparr> characterName := nullish (sv_characterName save) [],
        className := Some (sv_className save),
        selectedSubclass := nullish (map_option Some (sv_selectedSubclass save)) None,
        selectedDomains := sv_selectedDomains save,
        selectedAbilities := new_Set (sv_selectedAbilities save),
        selectedOrigin := nullish (map_option Some (sv_selectedOrigin save)) None,
        selectedCommunity := nullish (map_option Some (sv_selectedCommunity save)) None \<rparr>"

section \<open>The builder view's handlers\<close>

text \<open>
  The builder view does not call \<^verbatim>\<open>store.toggleDomain\<close> directly; its own
  \<^verbatim>\<open>toggleDomain\<close> guards the call:
  \<^verbatim>\<open>
  const MAX_DOMAINS = 2
  function toggleDomain(d: Dominio) {
    if (store.selectedDomains.includes(d)) {
      store.toggleDomain(d)
    } else if (store.selectedDomains.length < MAX_DOMAINS) {
      store.toggleDomain(d)
    }
  }
  \<close>
\<close>

definition MAX_DOMAINS :: nat where
  "MAX_DOMAINS = 2"

definition toggleDomain_view ::
  "CardIndex list \<Rightarrow> ('a selection_scheme) \<Rightarrow> Dominio \<Rightarrow> ('a selection_scheme)" where
  "toggleDomain_view allCards s d =
     (if array_includes (selectedDomains s) d then toggleDomain allCards s d
      else if length (selectedDomains s) < MAX_DOMAINS then toggleDomain allCards s d
      else s)"

text \<open>
  The click handlers of the origin and community thumbnails, for the card with id \<open>i\<close>:
  \<^verbatim>\<open>
  @click="store.selectOrigin(store.selectedOrigin === card.id ? null : card.id)"
  @click="store.selectCommunity(store.selectedCommunity === card.id ? null : card.id)"
  \<close>
\<close>

definition click_origin :: "('a selection_scheme) \<Rightarrow> string \<Rightarrow> ('a selection_scheme)" where
  "click_origin s i = selectOrigin s (if selectedOrigin s = Some i then None else Some i)"

definition click_community :: "('a selection_scheme) \<Rightarrow> string \<Rightarrow> ('a selection_scheme)" where
  "click_community s i = selectCommunity s (if selectedCommunity s = Some i then None else Some i)"

section \<open>Uploading a save file\<close>

text \<open>
  The uploaded file is parsed by \<^verbatim>\<open>JSON.parse\<close> and typed \<^verbatim>\<open>CharacterSave\<close> without any
  check, so what reaches \<^verbatim>\<open>fromSave\<close> is an arbitrary JSON value. This section models
  that path on untyped values; \<open>fromSave_js_refines\<close> below shows that on a document of
  the declared shape it is \<open>fromSave\<close>.

  A JSON value as \<^verbatim>\<open>JSON.parse\<close> builds it. An object is the list of its own properties
  (each key once). The numbers of a save document are stored or compared, never computed
  with; they are integers here. \<^verbatim>\<open>undefined\<close>, which \<^verbatim>\<open>JSON.parse\<close> never yields but a
  read of a missing property does, is \<open>None\<close> of \<open>jsval option\<close>.
\<close>

datatype jsval =
  JNull | JBool bool | JNum int | JStr string | JArr "jsval list" | JObj "(string \<times> jsval) list"

text \<open>
  What \<^verbatim>\<open>reader.readAsText(file)\<close> followed by \<^verbatim>\<open>JSON.parse\<close> of the text comes to: the
  read fails (\<^verbatim>\<open>reader.onerror\<close>), \<^verbatim>\<open>JSON.parse\<close> throws, or it returns a value.
\<close>

datatype upload = ReadFailed | NotJson | Json jsval

text \<open>The two rejections: \<^verbatim>\<open>'Errore lettura file'\<close> and \<^verbatim>\<open>'File JSON non valido'\<close>.\<close>

datatype load_error = Errore_lettura_file | File_JSON_non_valido

text \<open>
  \<^verbatim>\<open>
  function loadSave(file: File): Promise<CharacterSave> {
    return new Promise((resolve, reject) => {
      const reader = new FileReader()
      reader.onload = e => {
        try {
          resolve(JSON.parse(e.target!.result as string))
        } catch {
          reject(new Error('File JSON non valido'))
        }
      }
      reader.onerror = () => reject(new Error('Errore lettura file'))
      reader.readAsText(file)
    })
  }
  \<close>
\<close>

definition loadSave :: "upload \<Rightarrow> load_error + jsval" where
  "loadSave f =
     (case f of
        ReadFailed \<Rightarrow> Inl Errore_lettura_file
      | NotJson \<Rightarrow> Inl File_JSON_non_valido
      | Json v \<Rightarrow> Inr v)"

text \<open>
  The refs of the store as they are at run time: any value can be assigned to them.
  The members of the \<^verbatim>\<open>Set\<close> are listed in insertion order.
\<close>

record js_store =
  js_characterName :: "jsval option"
  js_className :: "jsval option"
  js_selectedSubclass :: "jsval option"
  js_selectedDomains :: "jsval option"
  js_selectedAbilities :: "jsval list"
  js_selectedOrigin :: "jsval option"
  js_selectedCommunity :: "jsval option"

text \<open>
  \<^verbatim>\<open>save.k\<close> for a value \<open>save\<close> that is not \<^verbatim>\<open>null\<close>, and \<open>k\<close> one of the property
  names \<^verbatim>\<open>fromSave\<close> reads: an object gives its own property or \<^verbatim>\<open>undefined\<close>; a
  boolean, a number, a string and an array have no property of these names.
\<close>

definition get_prop :: "jsval \<Rightarrow> string \<Rightarrow> jsval option" where
  "get_prop v k = (case v of JObj kvs \<Rightarrow> map_of kvs k | _ \<Rightarrow> None)"

text \<open>\<^verbatim>\<open>a ?? b\<close> on untyped values.\<close>

definition coalesce :: "jsval option \<Rightarrow> jsval \<Rightarrow> jsval option" where
  "coalesce a b = (case a of None \<Rightarrow> Some b | Some JNull \<Rightarrow> Some b | Some v \<Rightarrow> Some v)"

text \<open>
  The equality of \<^verbatim>\<open>Set\<close> members (SameValueZero): primitives are compared by value;
  an array or an object is the same as itself only, and the elements of a parsed array
  are objects of their own.
\<close>

fun same_value_zero :: "jsval \<Rightarrow> jsval \<Rightarrow> bool" where
  "same_value_zero JNull JNull = True"
| "same_value_zero (JBool a) (JBool b) = (a = b)"
| "same_value_zero (JNum a) (JNum b) = (a = b)"
| "same_value_zero (JStr a) (JStr b) = (a = b)"
| "same_value_zero _ _ = False"

definition js_add_val :: "jsval list \<Rightarrow> jsval \<Rightarrow> jsval list" where
  "js_add_val xs x = (if list_ex (\<lambda>y. same_value_zero y x) xs then xs else xs @ [x])"

text \<open>
  \<^verbatim>\<open>new Set(v)\<close>: empty for \<^verbatim>\<open>undefined\<close> and \<^verbatim>\<open>null\<close>; the elements of an array; the
  characters of a string; a \<^verbatim>\<open>TypeError\<close> for a value that is not iterable.
\<close>

definition new_Set_js :: "jsval option \<Rightarrow> js_error + jsval list" where
  "new_Set_js v =
     (case v of
        None \<Rightarrow> Inr []
      | Some JNull \<Rightarrow> Inr []
      | Some (JArr xs) \<Rightarrow> Inr (foldl js_add_val [] xs)
      | Some (JStr cs) \<Rightarrow> Inr (foldl js_add_val [] (map (\<lambda>c. JStr [c]) cs))
      | Some _ \<Rightarrow> Inl TypeError)"

text \<open>
  \<^verbatim>\<open>fromSave\<close> statement by statement. \<^verbatim>\<open>save.characterName\<close> throws when \<open>save\<close> is
  \<^verbatim>\<open>null\<close>, before any assignment; \<^verbatim>\<open>new Set(...)\<close> can throw after four of them.
\<close>

definition fromSave_js :: "js_store \<Rightarrow> jsval \<Rightarrow> js_store \<times> js_error option" where
  "fromSave_js s save =
     (if save = JNull then (s, Some TypeError)
      else
        let s1 = s\<lparr> js_characterName := coalesce (get_prop save ''characterName'') (JStr []) \<rparr>;
            s2 = s1\<lparr> js_className := get_prop save ''className'' \<rparr>;
            s3 = s2\<lparr> js_selectedSubclass := coalesce (get_prop save ''selectedSubclass'') JNull \<rparr>;
            s4 = s3\<lparr> js_selectedDomains := get_prop save ''selectedDomains'' \<rparr>
        in case new_Set_js (get_prop save ''selectedAbilities'') of
             Inl e \<Rightarrow> (s4, Some e)
           | Inr S \<Rightarrow>
               (s4\<lparr> js_selectedAbilities := S,
                    js_selectedOrigin := coalesce (get_prop save ''selectedOrigin'') JNull,
                    js_selectedCommunity := coalesce (get_prop save ''selectedCommunity'') JNull \<rparr>,
                None))"

text \<open>
  The view's handler, for a selected file:
  \<^verbatim>\<open>
  try {
    store.fromSave(await loadSave(file))
  } catch (err) {
    alert(String(err))
  }
  \<close>
\<close>

datatype alert = LoadFailed load_error | Threw js_error

definition onLoadFile :: "js_store \<Rightarrow> upload \<Rightarrow> js_store \<times> alert option" where
  "onLoadFile s f =
     (case loadSave f of
        Inl e \<Rightarrow> (s, Some (LoadFailed e))
      | Inr save \<Rightarrow> (case fromSave_js s save of (s', r) \<Rightarrow> (s', map_option Threw r)))"

text \<open>
  The typed store and a typed document as run-time values: a domain is its string, a
  nullable string is the string or \<^verbatim>\<open>null\<close>, and the document is what
  \<^verbatim>\<open>JSON.parse(JSON.stringify(save))\<close> gives (\<open>characterName\<close> left out when absent).
\<close>

fun dominio_name :: "Dominio \<Rightarrow> string" where
  "dominio_name Arcano = ''arcano''"
| "dominio_name Lama = ''lama''"
| "dominio_name Osso = ''osso''"
| "dominio_name Codice = ''codice''"
| "dominio_name Grazia = ''grazia''"
| "dominio_name Mezzanotte = ''mezzanotte''"
| "dominio_name Saggio = ''saggio''"
| "dominio_name Splendore = ''splendore''"
| "dominio_name Valore = ''valore''"

definition js_of_nullable :: "string option \<Rightarrow> jsval" where
  "js_of_nullable x = (case x of None \<Rightarrow> JNull | Some v \<Rightarrow> JStr v)"

definition js_of_character :: "character \<Rightarrow> js_store" where
  "js_of_character s =
     \<lparr> js_characterName = Some (JStr (characterName s)),
       js_className = Some (js_of_nullable (className s)),
       js_selectedSubclass = Some (js_of_nullable (selectedSubclass s)),
       js_selectedDomains = Some (JArr (map (\<lambda>d. JStr (dominio_name d)) (selectedDomains s))),
       js_selectedAbilities = map JStr (elems (selectedAbilities s)),
       js_selectedOrigin = Some (js_of_nullable (selectedOrigin s)),
       js_selectedCommunity = Some (js_of_nullable (selectedCommunity s)) \<rparr>"

definition json_of_save :: "CharacterSave \<Rightarrow> jsval" where
  "json_of_save d =
     JObj ([ (''version'', JNum (int (version d))),
             (''exportDate'', JStr (exportDate d)) ]
           @ (case sv_characterName d of None \<Rightarrow> [] | Some n \<Rightarrow> [(''characterName'', JStr n)])
           @ [ (''className'', JStr (sv_className d)),
               (''selectedSubclass'', js_of_nullable (sv_selectedSubclass d)),
               (''classCardIds'', JArr (map JStr (classCardIds d))),
               (''selectedDomains'', JArr (map (\<lambda>d. JStr (dominio_name d)) (sv_selectedDomains d))),
               (''selectedAbilities'', JArr (map JStr (sv_selectedAbilities d))),
               (''selectedOrigin'', js_of_nullable (sv_selectedOrigin d)),
               (''selectedCommunity'', js_of_nullable (sv_selectedCommunity d)) ])"

section \<open>Auxiliary definitions and sample data\<close>

text \<open>
  The test of the cascade loop, \<^verbatim>\<open>card?.dominio === dominio\<close> for the card found by
  \<^verbatim>\<open>allCards.value.find(c => c.id === id)\<close>, as a predicate on ids.
\<close>

definition doomed :: "CardIndex list \<Rightarrow> Dominio \<Rightarrow> string \<Rightarrow> bool" where
  "doomed allCards d i =
     (case find (\<lambda>c. card_id c = i) allCards of None \<Rightarrow> False | Some c \<Rightarrow> dominio c = Some d)"

text \<open>The key of a card's bucket in \<open>cardsByLevel\<close>: \<^verbatim>\<open>c.livello ?? 0\<close>.\<close>

definition level_key :: "CardIndex \<Rightarrow> int" where
  "level_key c = nullish (livello c) 0"

text \<open>A small catalog, a state and a save document on which the theorems are run.\<close>

definition example_ability :: "string \<Rightarrow> Dominio option \<Rightarrow> int option \<Rightarrow> CardIndex" where
  "example_ability i d l =
     \<lparr> card_id = i, nome = i, categoria = DominioCat, dominio = d,
       sottocategoria = Some Abilita, tipo_carta = None, livello = l, soglia = None,
       pagina = 0, img = [], json = [] \<rparr>"

definition example_catalog :: "CardIndex list" where
  "example_catalog =
     [ example_ability ''a1'' (Some Codice) (Some 1),
       example_ability ''a2'' (Some Splendore) None,
       example_ability ''a3'' None (Some 1) ]"

definition example_state :: character where
  "example_state =
     \<lparr> className = Some ''Mago'', selectedDomains = [Codice, Splendore],
       selectedAbilities = new_Set [''a1'', ''a2''],
       selectedOrigin = Some ''o1'', selectedCommunity = None,
       characterName = ''Ada'', selectedSubclass = None \<rparr>"

definition example_full_state :: character where
  "example_full_state =
     \<lparr> className = Some ''Mago'', selectedDomains = [Codice, Splendore],
       selectedAbilities = new_Set [''a1'', ''a2''],
       selectedOrigin = Some ''o1'', selectedCommunity = Some ''c1'',
       characterName = ''Ada'', selectedSubclass = Some ''SCUOLA DELLA GUERRA'' \<rparr>"

definition example_save :: CharacterSave where
  "example_save =
     \<lparr> version = 1, exportDate = ''2025-01-01T00:00:00.000Z'',
       sv_characterName = None, sv_className = ''Bardo'', sv_selectedSubclass = None,
       classCardIds = [], sv_selectedDomains = [Grazia, Codice, Lama],
       sv_selectedAbilities = [''zz'', ''a3'', ''zz''],
       sv_selectedOrigin = None, sv_selectedCommunity = None \<rparr>"

text \<open>An uploaded document that is valid JSON and has no \<^verbatim>\<open>selectedAbilities\<close>.\<close>

definition example_upload :: jsval where
  "example_upload =
     JObj [ (''version'', JNum 1), (''className'', JStr ''Bardo''),
            (''selectedDomains'', JArr [JStr ''grazia'']) ]"

text \<open>An uploaded document with nothing but a \<^verbatim>\<open>selectedAbilities\<close> array.\<close>

definition example_upload_unnamed :: jsval where
  "example_upload_unnamed = JObj [ (''selectedAbilities'', JArr [JStr ''a1'', JStr ''a1'']) ]"

section \<open>Facts about the library functions\<close>

lemma indexOf_absent: "x \<notin> set xs \<Longrightarrow> indexOf xs x = -1"
  by (induction xs) auto

lemma indexOf_present: "x \<in> set xs \<Longrightarrow> 0 \<le> indexOf xs x"
  by (induction xs) (auto simp: Let_def)

text \<open>On a present element, \<^verbatim>\<open>indexOf\<close> followed by \<^verbatim>\<open>splice\<close> removes its first occurrence.\<close>

lemma splice1_indexOf: "x \<in> set xs \<Longrightarrow> splice1 (nat (indexOf xs x)) xs = remove1 x xs"
proof (induction xs)
  case Nil
  then show ?case by simp
next
  case (Cons y ys)
  show ?case
  proof (cases "y = x")
    case True
    then show ?thesis by (simp add: splice1_def)
  next
    case False
    with Cons.prems have in_ys: "x \<in> set ys" by simp
    then have nonneg: "0 \<le> indexOf ys x" by (rule indexOf_present)
    have "nat (indexOf ys x + 1) = Suc (nat (indexOf ys x))" using nonneg by simp
    with False nonneg Cons.IH [OF in_ys] show ?thesis
      by (simp add: splice1_def Let_def)
  qed
qed

text \<open>The equations that evaluate set operations on concrete members.\<close>

lemmas jsset_eval = js_empty.rep_eq js_add.rep_eq js_delete.rep_eq new_Set_def js_has_def

text \<open>Rebuilding a set from its own members gives the same set, in the same order.\<close>

lemma elems_foldl_add:
  "distinct (elems A @ xs) \<Longrightarrow> elems (foldl (\<lambda>S x. js_add x S) A xs) = elems A @ xs"
  by (induction xs arbitrary: A) (simp_all add: js_add.rep_eq)

lemma new_Set_elems: "new_Set (elems S) = S"
proof -
  have "distinct (elems S)" using elems [of S] by simp
  then have "elems (new_Set (elems S)) = elems S"
    unfolding new_Set_def by (simp add: elems_foldl_add js_empty.rep_eq)
  then show ?thesis by (simp add: elems_inject)
qed

lemma set_foldl_add:
  "set (elems (foldl (\<lambda>S x. js_add x S) A xs)) = set (elems A) \<union> set xs"
  by (induction xs arbitrary: A) (auto simp: js_add.rep_eq)

lemma set_new_Set: "set (elems (new_Set xs)) = set xs"
  unfolding new_Set_def by (simp add: set_foldl_add js_empty.rep_eq)

section \<open>toggleDomain: the add branch\<close>

text \<open>
  C9. For every state and every domain \<open>d\<close> that is not in \<open>selectedDomains\<close>,
  \<open>toggleDomain d\<close> appends \<open>d\<close> at the end of \<open>selectedDomains\<close> and changes nothing
  else: \<open>className\<close>, \<open>selectedSubclass\<close>, \<open>selectedAbilities\<close>, \<open>selectedOrigin\<close>,
  \<open>selectedCommunity\<close> and \<open>characterName\<close> are as before.
\<close>

theorem toggleDomain_add_frame:
  fixes s :: character
  assumes "d \<notin> set (selectedDomains s)"
  shows "selectedDomains (toggleDomain allCards s d) = selectedDomains s @ [d]
       \<and> className (toggleDomain allCards s d) = className s
       \<and> selectedSubclass (toggleDomain allCards s d) = selectedSubclass s
       \<and> selectedAbilities (toggleDomain allCards s d) = selectedAbilities s
       \<and> selectedOrigin (toggleDomain allCards s d) = selectedOrigin s
       \<and> selectedCommunity (toggleDomain allCards s d) = selectedCommunity s
       \<and> characterName (toggleDomain allCards s d) = characterName s
       \<and> toggleDomain allCards s d = s\<lparr> selectedDomains := selectedDomains s @ [d] \<rparr>"
  using assms by (simp add: toggleDomain_def Let_def indexOf_absent)

theorem toggleDomain_add_frame_witness:
  "Lama \<notin> set (selectedDomains example_full_state)
   \<and> selectedDomains (toggleDomain example_catalog example_full_state Lama)
        = [Codice, Splendore, Lama]
   \<and> className (toggleDomain example_catalog example_full_state Lama) = Some ''Mago''
   \<and> selectedSubclass (toggleDomain example_catalog example_full_state Lama)
        = Some ''SCUOLA DELLA GUERRA''
   \<and> elems (selectedAbilities (toggleDomain example_catalog example_full_state Lama))
        = [''a1'', ''a2'']
   \<and> selectedOrigin (toggleDomain example_catalog example_full_state Lama) = Some ''o1''
   \<and> selectedCommunity (toggleDomain example_catalog example_full_state Lama) = Some ''c1''
   \<and> characterName (toggleDomain example_catalog example_full_state Lama) = ''Ada''"
proof -
  have absent: "Lama \<notin> set (selectedDomains example_full_state)"
    by (simp add: example_full_state_def)
  note frame = toggleDomain_add_frame [OF absent, of example_catalog]
  have doms: "selectedDomains example_full_state = [Codice, Splendore]"
    and cn: "className example_full_state = Some ''Mago''"
    and sub: "selectedSubclass example_full_state = Some ''SCUOLA DELLA GUERRA''"
    and ab: "elems (selectedAbilities example_full_state) = [''a1'', ''a2'']"
    and orig: "selectedOrigin example_full_state = Some ''o1''"
    and comm: "selectedCommunity example_full_state = Some ''c1''"
    and name: "characterName example_full_state = ''Ada''"
    by (simp_all add: example_full_state_def jsset_eval)
  from frame have "selectedDomains (toggleDomain example_catalog example_full_state Lama)
        = [Codice, Splendore, Lama]"
    by (simp add: doms)
  moreover from frame have "className (toggleDomain example_catalog example_full_state Lama)
        = Some ''Mago''"
    by (simp add: cn)
  moreover from frame have "selectedSubclass (toggleDomain example_catalog example_full_state Lama)
        = Some ''SCUOLA DELLA GUERRA''"
    by (simp add: sub)
  moreover from frame have
    "elems (selectedAbilities (toggleDomain example_catalog example_full_state Lama))
        = [''a1'', ''a2'']"
    by (simp add: ab)
  moreover from frame have "selectedOrigin (toggleDomain example_catalog example_full_state Lama)
        = Some ''o1''"
    by (simp add: orig)
  moreover from frame have "selectedCommunity (toggleDomain example_catalog example_full_state Lama)
        = Some ''c1''"
    by (simp add: comm)
  moreover from frame have "characterName (toggleDomain example_catalog example_full_state Lama)
        = ''Ada''"
    by (simp add: name)
  ultimately show ?thesis using absent by blast
qed

section \<open>toggleDomain: the remove branch and its cascade\<close>

text \<open>The loop keeps exactly the members whose card is not of the removed domain.\<close>

lemma elems_cascade:
  "elems (cascade allCards d ids S) =
     filter (\<lambda>i. \<not> (i \<in> set ids \<and> doomed allCards d i)) (elems S)"
proof (induction ids arbitrary: S)
  case Nil
  then show ?case by simp
next
  case (Cons i ids)
  show ?case
  proof (cases "doomed allCards d i")
    case True
    then obtain c where c: "find (\<lambda>c. card_id c = i) allCards = Some c" "dominio c = Some d"
      by (auto simp: doomed_def split: option.splits)
    have "elems (cascade allCards d (i # ids) S) = elems (cascade allCards d ids (js_delete i S))"
      using c by simp
    also have "\<dots> = filter (\<lambda>j. \<not> (j \<in> set ids \<and> doomed allCards d j)) (removeAll i (elems S))"
      by (simp add: Cons.IH js_delete.rep_eq)
    also have "\<dots> = filter (\<lambda>j. \<not> (j \<in> set (i # ids) \<and> doomed allCards d j)) (elems S)"
      using True by (auto simp: removeAll_filter_not_eq intro: filter_cong)
    finally show ?thesis .
  next
    case False
    then have "elems (cascade allCards d (i # ids) S) = elems (cascade allCards d ids S)"
      by (auto simp: doomed_def split: option.splits)
    also have "\<dots> = filter (\<lambda>j. \<not> (j \<in> set (i # ids) \<and> doomed allCards d j)) (elems S)"
      using False by (auto simp: Cons.IH intro: filter_cong)
    finally show ?thesis .
  qed
qed

lemma selectedAbilities_toggleDomain_present:
  assumes "d \<in> set (selectedDomains s)"
  shows "elems (selectedAbilities (toggleDomain allCards s d)) =
           filter (\<lambda>i. \<not> doomed allCards d i) (elems (selectedAbilities s))"
proof -
  have "0 \<le> indexOf (selectedDomains s) d" using assms by (rule indexOf_present)
  then have "selectedAbilities (toggleDomain allCards s d) =
      cascade allCards d (elems (selectedAbilities s)) (selectedAbilities s)"
    by (simp add: toggleDomain_def Let_def new_Set_elems)
  then show ?thesis
    by (auto simp: elems_cascade intro: filter_cong)
qed

text \<open>
  C3. For every state and every domain \<open>d\<close> present in \<open>selectedDomains\<close>, after
  \<open>toggleDomain d\<close> no id remains in \<open>selectedAbilities\<close> whose catalog card, looked up
  by id in \<open>allCards\<close> as the store does, has domain \<open>d\<close>.
\<close>

theorem toggleDomain_cascade:
  assumes "d \<in> set (selectedDomains s)"
      and "js_has i (selectedAbilities (toggleDomain allCards s d))"
      and "find (\<lambda>c. card_id c = i) allCards = Some c"
  shows "dominio c \<noteq> Some d"
proof
  assume "dominio c = Some d"
  with assms(3) have "doomed allCards d i" by (simp add: doomed_def)
  moreover have "i \<in> set (filter (\<lambda>i. \<not> doomed allCards d i) (elems (selectedAbilities s)))"
    using assms(1,2) by (simp only: js_has_def selectedAbilities_toggleDomain_present)
  ultimately show False by simp
qed

theorem toggleDomain_cascade_witness:
  "Codice \<in> set (selectedDomains example_state)
   \<and> js_has ''a2'' (selectedAbilities (toggleDomain example_catalog example_state Codice))
   \<and> find (\<lambda>c. card_id c = ''a2'') example_catalog = Some (example_ability ''a2'' (Some Splendore) None)
   \<and> dominio (example_ability ''a2'' (Some Splendore) None) \<noteq> Some Codice
   \<and> elems (selectedAbilities (toggleDomain example_catalog example_state Codice)) = [''a2'']"
proof -
  have 1: "Codice \<in> set (selectedDomains example_state)"
    by (simp add: example_state_def)
  have 2: "elems (selectedAbilities (toggleDomain example_catalog example_state Codice)) = [''a2'']"
    by (simp add: toggleDomain_def example_state_def example_catalog_def example_ability_def jsset_eval)
  have 3: "js_has ''a2'' (selectedAbilities (toggleDomain example_catalog example_state Codice))"
    by (simp add: js_has_def 2)
  have 4: "find (\<lambda>c. card_id c = ''a2'') example_catalog = Some (example_ability ''a2'' (Some Splendore) None)"
    by (simp add: example_catalog_def example_ability_def)
  from toggleDomain_cascade [OF 1 3 4] 1 2 3 4 show ?thesis by simp
qed

section \<open>The cap on the number of domains\<close>

text \<open>
  The store's \<open>toggleDomain\<close> has no cap: three toggles of three different domains from
  the initial state leave three domains selected.
\<close>

theorem toggleDomain_unbounded_counterexample:
  "\<not> length (selectedDomains
        (foldl (toggleDomain []) initial_character [Arcano, Lama, Osso])) \<le> 2"
  by (simp add: toggleDomain_def initial_character_def splice1_def)

lemma length_toggleDomain_present:
  assumes "d \<in> set (selectedDomains s)"
  shows "length (selectedDomains (toggleDomain allCards s d)) = length (selectedDomains s) - 1"
proof -
  have "0 \<le> indexOf (selectedDomains s) d" using assms by (rule indexOf_present)
  then show ?thesis
    using assms by (simp add: toggleDomain_def Let_def splice1_indexOf length_remove1)
qed

lemma length_toggleDomain_absent:
  "d \<notin> set (selectedDomains s) \<Longrightarrow>
     length (selectedDomains (toggleDomain allCards s d)) = length (selectedDomains s) + 1"
  by (simp add: toggleDomain_def Let_def indexOf_absent)

lemma length_toggleDomain_view:
  "length (selectedDomains (toggleDomain_view allCards s d)) \<le> max 2 (length (selectedDomains s))"
proof (cases "d \<in> set (selectedDomains s)")
  case True
  then show ?thesis
    by (simp add: toggleDomain_view_def array_includes_def length_toggleDomain_present)
next
  case False
  then show ?thesis
    by (simp add: toggleDomain_view_def array_includes_def MAX_DOMAINS_def
        length_toggleDomain_absent)
qed

lemma length_foldl_toggleDomain_view:
  "length (selectedDomains (foldl (toggleDomain_view allCards) s ds))
     \<le> max 2 (length (selectedDomains s))"
proof (induction ds arbitrary: s)
  case Nil
  then show ?case by simp
next
  case (Cons d ds)
  have "length (selectedDomains (foldl (toggleDomain_view allCards) (toggleDomain_view allCards s d) ds))
          \<le> max 2 (length (selectedDomains (toggleDomain_view allCards s d)))"
    by (rule Cons.IH)
  also have "\<dots> \<le> max 2 (length (selectedDomains s))"
    using length_toggleDomain_view [of allCards s d] by simp
  finally show ?case by simp
qed

text \<open>
  C2, as the code has it. The cap is the guard of the builder view's handler
  \<open>toggleDomain_view\<close>, through which the user's toggles reach the store. After any
  sequence of guarded toggles the length of \<open>selectedDomains\<close> is at most the larger
  of 2 and its starting length, so it never exceeds 2 from a state with at most 2 domains;
  the guarded toggle of an absent domain when 2 (or more) are selected is a no-op. The
  store's own \<open>toggleDomain\<close> of an absent domain always appends it.
\<close>

theorem toggleDomain_view_cap:
  "length (selectedDomains (foldl (toggleDomain_view allCards) s ds))
      \<le> max 2 (length (selectedDomains s))
   \<and> (length (selectedDomains s) \<le> 2 \<longrightarrow>
        length (selectedDomains (foldl (toggleDomain_view allCards) s ds)) \<le> 2)
   \<and> (d \<notin> set (selectedDomains s) \<and> 2 \<le> length (selectedDomains s) \<longrightarrow>
        toggleDomain_view allCards s d = s)
   \<and> (d \<notin> set (selectedDomains s) \<longrightarrow>
        length (selectedDomains (toggleDomain allCards s d)) = length (selectedDomains s) + 1)"
proof -
  have "length (selectedDomains (foldl (toggleDomain_view allCards) s ds))
          \<le> max 2 (length (selectedDomains s))"
    by (rule length_foldl_toggleDomain_view)
  moreover have "d \<notin> set (selectedDomains s) \<and> 2 \<le> length (selectedDomains s) \<longrightarrow>
        toggleDomain_view allCards s d = s"
    by (simp add: toggleDomain_view_def array_includes_def MAX_DOMAINS_def)
  ultimately show ?thesis
    by (auto simp: length_toggleDomain_absent)
qed

theorem toggleDomain_view_cap_witness:
  "length (selectedDomains example_state) \<le> 2
   \<and> length (selectedDomains
        (foldl (toggleDomain_view example_catalog) example_state [Arcano, Codice, Lama, Osso])) \<le> 2
   \<and> Arcano \<notin> set (selectedDomains example_state)
   \<and> 2 \<le> length (selectedDomains example_state)
   \<and> toggleDomain_view example_catalog example_state Arcano = example_state
   \<and> length (selectedDomains (toggleDomain example_catalog example_state Arcano)) = 3"
proof -
  have len: "length (selectedDomains example_state) = 2"
    by (simp add: example_state_def)
  have absent: "Arcano \<notin> set (selectedDomains example_state)"
    by (simp add: example_state_def)
  note cap = toggleDomain_view_cap
    [of example_catalog example_state "[Arcano, Codice, Lama, Osso]" Arcano]
  from cap len have
    "length (selectedDomains
        (foldl (toggleDomain_view example_catalog) example_state [Arcano, Codice, Lama, Osso])) \<le> 2"
    by simp
  moreover from cap len absent have
    "toggleDomain_view example_catalog example_state Arcano = example_state"
    by simp
  moreover from cap len absent have
    "length (selectedDomains (toggleDomain example_catalog example_state Arcano)) = 3"
    by simp
  ultimately show ?thesis using len absent by simp
qed

section \<open>Origin and community\<close>

text \<open>
  \<open>selectOrigin\<close> does not toggle: selecting the id that is already selected keeps it.
\<close>

theorem selectOrigin_no_toggle_counterexample:
  "selectedOrigin example_state = Some ''o1''
   \<and> selectedOrigin (selectOrigin example_state (Some ''o1'')) \<noteq> None"
  by (simp add: selectOrigin_def example_state_def)

text \<open>
  C5, as the code has it. \<open>selectOrigin\<close> and \<open>selectCommunity\<close> set the field to their
  argument (an id or null). The toggle is the view's click handler: a click on the card
  with id \<open>i\<close> clears the field when it already equals \<open>i\<close> and sets it to \<open>i\<close> otherwise.
\<close>

theorem select_origin_community:
  "selectedOrigin (selectOrigin s x) = x
   \<and> selectedCommunity (selectCommunity s x) = x
   \<and> selectedOrigin (click_origin s i) = (if selectedOrigin s = Some i then None else Some i)
   \<and> selectedCommunity (click_community s i) = (if selectedCommunity s = Some i then None else Some i)"
  by (simp add: selectOrigin_def selectCommunity_def click_origin_def click_community_def)

theorem select_origin_community_witness:
  "selectedOrigin (selectOrigin example_state (Some ''o1'')) = Some ''o1''
   \<and> selectedOrigin (click_origin example_state ''o1'') = None
   \<and> selectedOrigin (click_origin example_state ''o2'') = Some ''o2''
   \<and> selectedCommunity (click_community example_state ''c1'') = Some ''c1''"
  using select_origin_community [of example_state "Some ''o1''" "''o1''"]
        select_origin_community [of example_state "Some ''o1''" "''o2''"]
        select_origin_community [of example_state "Some ''o1''" "''c1''"]
  by (simp add: example_state_def)

section \<open>selectClass\<close>

lemma plain_get_other_names:
  "k \<notin> set Object_prototype_names \<Longrightarrow> plain_get tbl k = map_option Val (map_of tbl k)"
  by (simp add: plain_get_def split: option.splits)

text \<open>
  For a name that \<^verbatim>\<open>Object.prototype\<close> does not define, the later store's \<open>selectClass\<close>
  throws nothing and leaves the class name set, the subclass null, no ability selected
  and the domains of the table's pair (none for a name the table lacks).
\<close>

lemma selectClass_other_names:
  assumes "n \<notin> set Object_prototype_names"
  shows "selectClass s n =
           (s\<lparr> className := Some n, selectedSubclass := None, selectedAbilities := js_empty,
               selectedDomains :=
                 (case map_of CLASS_DOMAINS n of None \<Rightarrow> [] | Some (a, b) \<Rightarrow> [a, b]) \<rparr>,
            None)"
  using assms
  by (simp add: selectClass_def Let_def plain_get_other_names split: option.splits)

lemma selectClass_Ladro:
  "selectClass example_full_state ''Ladro'' =
     (example_full_state\<lparr> className := Some ''Ladro'', selectedSubclass := None,
        selectedAbilities := js_empty, selectedDomains := [Mezzanotte, Grazia] \<rparr>, None)"
proof -
  have "''Ladro'' \<notin> set Object_prototype_names"
    by (simp add: Object_prototype_names_def)
  moreover have "map_of CLASS_DOMAINS ''Ladro'' = Some (Mezzanotte, Grazia)"
    by (simp add: CLASS_DOMAINS_def)
  ultimately show ?thesis by (simp add: selectClass_other_names)
qed

text \<open>The earlier store's \<open>selectClass\<close> reads no table and resets for every name.\<close>

lemma selectClass_manual_resets:
  "selectedAbilities (selectClass_manual s n) = js_empty
   \<and> selectedDomains (selectClass_manual s n) = []
   \<and> className (selectClass_manual s n) = Some n"
  by (simp add: selectClass_manual_def)

text \<open>
  In every case the later store's \<open>selectClass\<close> has set the class name and cleared the
  subclass and the abilities; only the domains depend on the lookup.
\<close>

lemma selectClass_always:
  "className (fst (selectClass s n)) = Some n
   \<and> selectedSubclass (fst (selectClass s n)) = None
   \<and> selectedAbilities (fst (selectClass s n)) = js_empty"
  by (simp add: selectClass_def Let_def split: option.splits js_member.splits prod.splits)


section \<open>Loading a save document\<close>

text \<open>
  C10. \<open>fromSave\<close> installs the document's fields as they are: for every document,
  \<open>selectedDomains\<close> is the document's array (whatever its length) and the members of
  \<open>selectedAbilities\<close> are exactly the elements of the document's array; the catalog is
  not an argument of \<open>fromSave\<close> at all.
\<close>

theorem fromSave_verbatim:
  "selectedDomains (fromSave s save) = sv_selectedDomains save
   \<and> set (elems (selectedAbilities (fromSave s save))) = set (sv_selectedAbilities save)
   \<and> (js_has i (selectedAbilities (fromSave s save)) \<longleftrightarrow> i \<in> set (sv_selectedAbilities save))"
  by (simp add: fromSave_def set_new_Set js_has_def)

theorem fromSave_verbatim_witness:
  "selectedDomains (fromSave initial_character example_save) = [Grazia, Codice, Lama]
   \<and> set (elems (selectedAbilities (fromSave initial_character example_save))) = {''zz'', ''a3''}
   \<and> js_has ''zz'' (selectedAbilities (fromSave initial_character example_save))"
  using fromSave_verbatim [of initial_character example_save "''zz''"]
  by (auto simp: example_save_def)

section \<open>The round trip through a save document\<close>

text \<open>
  \<open>toSave\<close> writes \<^verbatim>\<open>className.value ?? ''\<close>: from the initial state, whose class
  name is null, the round trip comes back with the empty string as class name.
\<close>

theorem save_roundtrip_counterexample:
  "className (fromSave initial_character (toSave [] [] initial_character))
     \<noteq> className initial_character"
  by (simp add: fromSave_def toSave_def initial_character_def nullish_def)

text \<open>
  C1, as the code has it. For every state \<open>s\<close> with a class name (not null),
  \<open>fromSave (toSave ())\<close> gives back \<open>s\<close> on all of \<open>characterName\<close>, \<open>className\<close>,
  \<open>selectedSubclass\<close>, \<open>selectedDomains\<close>, \<open>selectedAbilities\<close>, \<open>selectedOrigin\<close>
  and \<open>selectedCommunity\<close>. For a state whose class name is null (the initial state among
  them) it gives back every field but \<open>className\<close>, which becomes the empty string.
  The state \<open>s0\<close> the document is loaded into does not matter.
\<close>

theorem save_roundtrip:
  "fromSave s0 (toSave now allCards s) = s\<lparr> className := Some (nullish (className s) []) \<rparr>
   \<and> (className s \<noteq> None \<longrightarrow> fromSave s0 (toSave now allCards s) = s)"
proof -
  have eq: "fromSave s0 (toSave now allCards s) = s\<lparr> className := Some (nullish (className s) []) \<rparr>"
    by (cases s; cases s0)
       (simp add: fromSave_def toSave_def new_Set_elems nullish_def split: option.splits)
  moreover have "className s \<noteq> None \<longrightarrow> s\<lparr> className := Some (nullish (className s) []) \<rparr> = s"
    by (cases s) (auto simp: nullish_def)
  ultimately show ?thesis by simp
qed

theorem save_roundtrip_witness:
  "className example_state \<noteq> None
   \<and> fromSave initial_character (toSave [] example_catalog example_state) = example_state
   \<and> fromSave example_state (toSave [] example_catalog initial_character)
        = initial_character\<lparr> className := Some [] \<rparr>"
proof -
  have cn: "className example_state \<noteq> None" by (simp add: example_state_def)
  from save_roundtrip [of initial_character "[]" example_catalog example_state] cn
  have "fromSave initial_character (toSave [] example_catalog example_state) = example_state"
    by blast
  moreover from save_roundtrip [of example_state "[]" example_catalog initial_character]
  have "fromSave example_state (toSave [] example_catalog initial_character)
        = initial_character\<lparr> className := Some [] \<rparr>"
    by (simp add: initial_character_def nullish_def)
  ultimately show ?thesis using cn by simp
qed

section \<open>Ability cards of the selected domains\<close>

text \<open>
  C8. A card whose \<open>dominio\<close> is null is left out of \<open>abilityCards\<close>, whatever the
  selected domains (the array holds domains only, by its type): \<open>abilityCards\<close> is the
  filter of the catalog by "is an ability and has a domain that is selected", a total
  function with no failing case, so no card of \<open>abilityCards\<close> has a null domain and
  every catalog card with a null domain is absent from it.
\<close>

theorem abilityCards_null_domain:
  "abilityCards allCards s =
     filter (\<lambda>c. sottocategoria c = Some Abilita
                \<and> (\<exists>d. dominio c = Some d \<and> d \<in> set (selectedDomains s))) allCards
   \<and> (\<forall>c \<in> set (abilityCards allCards s). dominio c \<noteq> None)
   \<and> (\<forall>c \<in> set allCards. dominio c = None \<longrightarrow> c \<notin> set (abilityCards allCards s))"
proof -
  have "array_includes (map Some (selectedDomains s)) (dominio c)
          \<longleftrightarrow> (\<exists>d. dominio c = Some d \<and> d \<in> set (selectedDomains s))" for c :: CardIndex
    by (auto simp: array_includes_def)
  then have "abilityCards allCards s =
     filter (\<lambda>c. sottocategoria c = Some Abilita
                \<and> (\<exists>d. dominio c = Some d \<and> d \<in> set (selectedDomains s))) allCards"
    by (simp add: abilityCards_def)
  then show ?thesis by auto
qed

theorem abilityCards_null_domain_witness:
  "example_ability ''a1'' (Some Codice) (Some 1) \<in> set (abilityCards example_catalog example_state)
   \<and> dominio (example_ability ''a1'' (Some Codice) (Some 1)) \<noteq> None
   \<and> example_ability ''a3'' None (Some 1) \<in> set example_catalog
   \<and> dominio (example_ability ''a3'' None (Some 1)) = None
   \<and> example_ability ''a3'' None (Some 1) \<notin> set (abilityCards example_catalog example_state)
   \<and> abilityCards example_catalog example_state =
        [example_ability ''a1'' (Some Codice) (Some 1), example_ability ''a2'' (Some Splendore) None]"
proof -
  have mem: "example_ability ''a3'' None (Some 1) \<in> set example_catalog"
    by (simp add: example_catalog_def)
  have null: "dominio (example_ability ''a3'' None (Some 1)) = None"
    by (simp add: example_ability_def)
  from abilityCards_null_domain [of example_catalog example_state] mem null
  have out: "example_ability ''a3'' None (Some 1) \<notin> set (abilityCards example_catalog example_state)"
    by blast
  have "abilityCards example_catalog example_state =
        [example_ability ''a1'' (Some Codice) (Some 1), example_ability ''a2'' (Some Splendore) None]"
    by (simp add: abilityCards_def example_catalog_def example_state_def example_ability_def
        array_includes_def)
  moreover from this abilityCards_null_domain [of example_catalog example_state]
  have "dominio (example_ability ''a1'' (Some Codice) (Some 1)) \<noteq> None"
    by simp
  ultimately show ?thesis using mem null out by simp
qed

section \<open>Ability cards by level\<close>

text \<open>One step of the bucket loops: the keys and the contents after it.\<close>

lemma map_fst_push_bucket: "map fst (push_bucket k c m) = map fst m"
  by (induction m) (auto simp: push_bucket_def)

lemma map_fst_ensure_bucket:
  "map fst (ensure_bucket k m) = (if k \<in> set (map fst m) then map fst m else map fst m @ [k])"
  by (auto simp: ensure_bucket_def map_of_eq_None_iff)

lemma map_of_push_bucket:
  "map_of (push_bucket k c m) k' =
     (if k' = k then map_option (\<lambda>b. b @ [c]) (map_of m k) else map_of m k')"
  by (induction m) (auto simp: push_bucket_def)

lemma map_of_ensure_bucket:
  "map_of (ensure_bucket k m) k' =
     (if k' = k \<and> map_of m k = None then Some [] else map_of m k')"
  by (auto simp: ensure_bucket_def map_add_def map_of_append split: option.splits)

lemma map_of_bucket_step:
  "map_of (push_bucket k c (ensure_bucket k m)) k' =
     (if k' = k then Some (nullish (map_of m k) [] @ [c]) else map_of m k')"
  by (auto simp: map_of_push_bucket map_of_ensure_bucket nullish_def split: option.splits)

lemma map_fst_bucket_step:
  "map fst (push_bucket k c (ensure_bucket k m)) =
     (if k \<in> set (map fst m) then map fst m else map fst m @ [k])"
  by (simp only: map_fst_push_bucket map_fst_ensure_bucket)

lemma keys_bucket_step:
  "fst ` set (push_bucket k c (ensure_bucket k m)) = insert k (fst ` set m)"
proof -
  have "set (map fst (push_bucket k c (ensure_bucket k m))) = insert k (set (map fst m))"
    unfolding map_fst_bucket_step by auto
  then show ?thesis by simp
qed

lemma mset_push_bucket:
  "distinct (map fst m) \<Longrightarrow> k \<in> set (map fst m) \<Longrightarrow>
     mset (concat (map snd (push_bucket k c m))) = mset (concat (map snd m)) + {#c#}"
proof (induction m)
  case Nil
  then show ?case by simp
next
  case (Cons p m)
  obtain k' b where p: "p = (k', b)" by (cases p)
  show ?case
  proof (cases "k' = k")
    case True
    with Cons.prems p have "k \<notin> set (map fst m)" by simp
    then have "push_bucket k c m = m"
      by (induction m) (auto simp: push_bucket_def)
    with True p show ?thesis by (simp add: push_bucket_def)
  next
    case False
    with Cons.prems p have "distinct (map fst m)" "k \<in> set (map fst m)" by auto
    from Cons.IH [OF this] False p show ?thesis by (simp add: push_bucket_def)
  qed
qed

lemma mset_bucket_step:
  assumes "distinct (map fst m)"
  shows "mset (concat (map snd (push_bucket k c (ensure_bucket k m))))
           = mset (concat (map snd m)) + {#c#}"
proof -
  have d: "distinct (map fst (ensure_bucket k m))"
    using assms by (simp add: map_fst_ensure_bucket)
  have k: "k \<in> set (map fst (ensure_bucket k m))"
    by (simp add: map_fst_ensure_bucket)
  have "mset (concat (map snd (ensure_bucket k m))) = mset (concat (map snd m))"
    by (simp add: ensure_bucket_def)
  with mset_push_bucket [OF d k] show ?thesis by simp
qed

text \<open>The loop of \<open>cardsByLevel\<close>, from any dictionary built so far.\<close>

lemma distinct_cardsByLevel_loop:
  "distinct (map fst m) \<Longrightarrow> distinct (map fst (cardsByLevel_loop cs m))"
  by (induction cs arbitrary: m) (simp_all add: Let_def map_fst_bucket_step)

lemma keys_cardsByLevel_loop:
  "fst ` set (cardsByLevel_loop cs m) = fst ` set m \<union> level_key ` set cs"
  by (induction cs arbitrary: m) (simp_all add: Let_def keys_bucket_step level_key_def)

lemma mset_cardsByLevel_loop:
  "distinct (map fst m) \<Longrightarrow>
     mset (concat (map snd (cardsByLevel_loop cs m))) = mset (concat (map snd m)) + mset cs"
proof (induction cs arbitrary: m)
  case Nil
  then show ?case by simp
next
  case (Cons c cs)
  let ?m' = "push_bucket (nullish (livello c) 0) c (ensure_bucket (nullish (livello c) 0) m)"
  have "distinct (map fst ?m')" using Cons.prems by (simp add: map_fst_bucket_step)
  from Cons.IH [OF this] mset_bucket_step [OF Cons.prems]
  show ?case by (simp add: Let_def)
qed

lemma map_of_cardsByLevel_loop:
  "map_of (cardsByLevel_loop cs m) k =
     (case map_of m k of
        None \<Rightarrow> if filter (\<lambda>c. level_key c = k) cs = [] then None
                else Some (filter (\<lambda>c. level_key c = k) cs)
      | Some b \<Rightarrow> Some (b @ filter (\<lambda>c. level_key c = k) cs))"
proof (induction cs arbitrary: m)
  case Nil
  then show ?case by (simp split: option.splits)
next
  case (Cons c cs)
  show ?case
    by (simp add: Let_def Cons.IH map_of_bucket_step level_key_def nullish_def
        split: option.splits)
qed

text \<open>
  C7. For every catalog and every selection, \<open>cardsByLevel\<close> partitions \<open>abilityCards\<close>
  exactly: each key occurs once; the bucket of key \<open>k\<close> is the list of the ability
  cards whose level (null read as 0) is \<open>k\<close>, in catalog order, and there is no bucket
  for a level no ability card has; a card of a bucket is an ability card of that level,
  and every ability card is in the bucket of its level; all buckets together hold the
  ability cards, each as often as \<open>abilityCards\<close> does. \<open>levels\<close> is the strictly ascending list, without
  duplicates, of the bucket keys.
\<close>

theorem cardsByLevel_partition:
  "distinct (Object_keys (cardsByLevel allCards s))
   \<and> map_of (cardsByLevel allCards s) k =
        (if k \<in> level_key ` set (abilityCards allCards s)
         then Some (filter (\<lambda>c. level_key c = k) (abilityCards allCards s)) else None)
   \<and> ((k, b) \<in> set (cardsByLevel allCards s) \<and> c \<in> set b \<longrightarrow>
         c \<in> set (abilityCards allCards s) \<and> level_key c = k)
   \<and> (c \<in> set (abilityCards allCards s) \<longrightarrow>
         (\<exists>b'. (level_key c, b') \<in> set (cardsByLevel allCards s) \<and> c \<in> set b'))
   \<and> mset (concat (map snd (cardsByLevel allCards s))) = mset (abilityCards allCards s)
   \<and> set (Object_keys (cardsByLevel allCards s)) = level_key ` set (abilityCards allCards s)
   \<and> sorted_wrt (<) (levels allCards s)
   \<and> distinct (levels allCards s)
   \<and> set (levels allCards s) = set (Object_keys (cardsByLevel allCards s))"
proof -
  let ?ab = "abilityCards allCards s"
  let ?m = "cardsByLevel allCards s"
  have d: "distinct (map fst ?m)"
    by (simp add: cardsByLevel_def distinct_cardsByLevel_loop)
  have bucket: "map_of ?m k' =
        (if k' \<in> level_key ` set ?ab then Some (filter (\<lambda>c. level_key c = k') ?ab) else None)"
    for k'
  proof -
    have "filter (\<lambda>c. level_key c = k') ?ab = [] \<longleftrightarrow> k' \<notin> level_key ` set ?ab"
      by (auto simp: filter_empty_conv)
    then show ?thesis
      by (simp add: cardsByLevel_def map_of_cardsByLevel_loop)
  qed
  have inb: "c \<in> set ?ab \<and> level_key c = k" if "(k, b) \<in> set ?m" "c \<in> set b"
  proof -
    from that(1) d have "map_of ?m k = Some b" by simp
    with bucket [of k] have "b = filter (\<lambda>c. level_key c = k) ?ab"
      by (simp split: if_splits)
    with that(2) show ?thesis by simp
  qed
  have covered: "\<exists>b'. (level_key c, b') \<in> set ?m \<and> c \<in> set b'" if "c \<in> set ?ab"
  proof -
    from that bucket [of "level_key c"]
    have "map_of ?m (level_key c) = Some (filter (\<lambda>c'. level_key c' = level_key c) ?ab)"
      by auto
    then have "(level_key c, filter (\<lambda>c'. level_key c' = level_key c) ?ab) \<in> set ?m"
      by (rule map_of_SomeD)
    moreover have "c \<in> set (filter (\<lambda>c'. level_key c' = level_key c) ?ab)"
      using that by simp
    ultimately show ?thesis by blast
  qed
  have p: "mset (concat (map snd ?m)) = mset ?ab"
    by (simp add: cardsByLevel_def mset_cardsByLevel_loop)
  have ks: "set (Object_keys ?m) = level_key ` set ?ab"
    by (simp add: Object_keys_def cardsByLevel_def keys_cardsByLevel_loop)
  have srt: "sorted_wrt (<) (levels allCards s)"
    using d by (simp add: levels_def Object_keys_def strict_sorted_iff)
  have dl: "distinct (levels allCards s)"
    using d by (simp add: levels_def Object_keys_def)
  have sl: "set (levels allCards s) = set (Object_keys ?m)"
    by (simp add: levels_def)
  from d have d': "distinct (Object_keys ?m)" by (simp add: Object_keys_def)
  from d' bucket [of k] inb covered p ks srt dl sl show ?thesis by blast
qed

theorem cardsByLevel_partition_witness:
  "cardsByLevel example_catalog example_state =
      [(1, [example_ability ''a1'' (Some Codice) (Some 1)]),
       (0, [example_ability ''a2'' (Some Splendore) None])]
   \<and> (0, [example_ability ''a2'' (Some Splendore) None]) \<in> set (cardsByLevel example_catalog example_state)
   \<and> example_ability ''a2'' (Some Splendore) None \<in> set (abilityCards example_catalog example_state)
   \<and> level_key (example_ability ''a2'' (Some Splendore) None) = 0
   \<and> map_of (cardsByLevel example_catalog example_state) 0 =
        Some [example_ability ''a2'' (Some Splendore) None]
   \<and> map_of (cardsByLevel example_catalog example_state) 7 = None
   \<and> levels example_catalog example_state = [0, 1]
   \<and> sorted_wrt (<) (levels example_catalog example_state)"
proof -
  let ?a1 = "example_ability ''a1'' (Some Codice) (Some 1)"
  let ?a2 = "example_ability ''a2'' (Some Splendore) None"
  have ab: "abilityCards example_catalog example_state = [?a1, ?a2]"
    by (simp add: abilityCards_def example_catalog_def example_state_def example_ability_def
        array_includes_def)
  have k1: "level_key ?a1 = 1" and k2: "level_key ?a2 = 0"
    by (simp_all add: level_key_def nullish_def example_ability_def)
  have cbl: "cardsByLevel example_catalog example_state = [(1, [?a1]), (0, [?a2])]"
    by (simp add: cardsByLevel_def ab Let_def ensure_bucket_def push_bucket_def nullish_def
        example_ability_def)
  have lv: "levels example_catalog example_state = [0, 1]"
    by (simp add: levels_def cbl Object_keys_def)
  have inb: "(0, [?a2]) \<in> set (cardsByLevel example_catalog example_state)"
    by (simp add: cbl)
  note part0 = cardsByLevel_partition
    [where allCards = example_catalog and s = example_state and k = 0 and b = "[?a2]" and c = ?a2]
  note part7 = cardsByLevel_partition
    [where allCards = example_catalog and s = example_state and k = 7 and b = "[]" and c = ?a2]
  from part0 inb have mem: "?a2 \<in> set (abilityCards example_catalog example_state) \<and> level_key ?a2 = 0"
    by simp
  from part0 have m0: "map_of (cardsByLevel example_catalog example_state) 0 = Some [?a2]"
    by (simp add: ab k1 k2)
  from part7 have m7: "map_of (cardsByLevel example_catalog example_state) 7 = None"
    by (simp add: ab k1 k2)
  from part0 have srt: "sorted_wrt (<) (levels example_catalog example_state)"
    by simp
  from cbl inb mem m0 m7 lv srt show ?thesis by blast
qed

section \<open>Uploading a save file: what is rejected\<close>

text \<open>On a document of the declared shape the untyped \<open>fromSave_js\<close> is \<open>fromSave\<close>.\<close>

lemma list_ex_same_value_zero_JStr:
  "list_ex (\<lambda>y. same_value_zero y (JStr x)) (map JStr xs) \<longleftrightarrow> x \<in> set xs"
  by (induction xs) auto

lemma js_add_val_JStr:
  "js_add_val (map JStr (elems A)) (JStr x) = map JStr (elems (js_add x A))"
  by (simp add: js_add_val_def list_ex_same_value_zero_JStr js_add.rep_eq)

lemma foldl_js_add_val_JStr:
  "foldl js_add_val (map JStr (elems A)) (map JStr xs)
     = map JStr (elems (foldl (\<lambda>S x. js_add x S) A xs))"
proof (induction xs arbitrary: A)
  case Nil
  then show ?case by simp
next
  case (Cons x xs)
  have "foldl js_add_val (map JStr (elems A)) (map JStr (x # xs))
          = foldl js_add_val (map JStr (elems (js_add x A))) (map JStr xs)"
    by (simp only: list.map foldl_Cons js_add_val_JStr)
  also have "\<dots> = map JStr (elems (foldl (\<lambda>S x. js_add x S) (js_add x A) xs))"
    by (rule Cons.IH)
  finally show ?case by simp
qed

lemma new_Set_js_strings:
  "new_Set_js (Some (JArr (map JStr xs))) = Inr (map JStr (elems (new_Set xs)))"
  using foldl_js_add_val_JStr [of js_empty xs]
  by (simp add: new_Set_js_def new_Set_def js_empty.rep_eq)

lemma coalesce_nullable: "coalesce (Some (js_of_nullable x)) JNull = Some (js_of_nullable x)"
  by (cases x) (simp_all add: coalesce_def js_of_nullable_def)

lemma get_prop_json_of_save:
  "get_prop (json_of_save d) ''characterName'' = map_option JStr (sv_characterName d)"
  "get_prop (json_of_save d) ''className'' = Some (JStr (sv_className d))"
  "get_prop (json_of_save d) ''selectedSubclass'' = Some (js_of_nullable (sv_selectedSubclass d))"
  "get_prop (json_of_save d) ''selectedDomains''
     = Some (JArr (map (\<lambda>d. JStr (dominio_name d)) (sv_selectedDomains d)))"
  "get_prop (json_of_save d) ''selectedAbilities'' = Some (JArr (map JStr (sv_selectedAbilities d)))"
  "get_prop (json_of_save d) ''selectedOrigin'' = Some (js_of_nullable (sv_selectedOrigin d))"
  "get_prop (json_of_save d) ''selectedCommunity'' = Some (js_of_nullable (sv_selectedCommunity d))"
  by (cases "sv_characterName d"; simp add: get_prop_def json_of_save_def)+

lemma coalesce_characterName:
  "coalesce (map_option JStr x) (JStr []) = Some (JStr (nullish x []))"
  by (cases x) (simp_all add: coalesce_def nullish_def)

lemma js_of_nullable_nullish:
  "js_of_nullable (nullish (map_option Some x) None) = js_of_nullable x"
  by (cases x) (simp_all add: nullish_def)

lemma json_of_save_not_null: "json_of_save d \<noteq> JNull"
  by (simp add: json_of_save_def)

lemma fromSave_js_refines:
  "fromSave_js (js_of_character s) (json_of_save d) = (js_of_character (fromSave s d), None)"
  by (simp add: fromSave_js_def Let_def get_prop_json_of_save json_of_save_not_null
      new_Set_js_strings coalesce_nullable coalesce_characterName
      js_of_character_def fromSave_def js_of_nullable_nullish)
     (simp add: js_of_nullable_def)

text \<open>
  A valid JSON document without \<^verbatim>\<open>selectedAbilities\<close> is not rejected: \<open>loadSave\<close>
  resolves it, \<open>fromSave\<close> installs it (with an empty ability set) and nothing is
  reported.
\<close>

theorem loadSave_no_validation_counterexample:
  "get_prop example_upload ''selectedAbilities'' = None
   \<and> loadSave (Json example_upload) = Inr example_upload
   \<and> snd (onLoadFile (js_of_character initial_character) (Json example_upload)) = None
   \<and> js_className (js_of_character initial_character) = Some JNull
   \<and> js_className (fst (onLoadFile (js_of_character initial_character) (Json example_upload)))
        = Some (JStr ''Bardo'')
   \<and> js_selectedAbilities (fst (onLoadFile (js_of_character initial_character) (Json example_upload)))
        = []"
  by (simp add: example_upload_def get_prop_def loadSave_def onLoadFile_def fromSave_js_def
      new_Set_js_def coalesce_def js_of_character_def initial_character_def js_of_nullable_def)

text \<open>
  A \<^verbatim>\<open>selectedAbilities\<close> that is not iterable makes \<^verbatim>\<open>new Set\<close> throw inside
  \<open>fromSave\<close>, after the class name and the domains have been overwritten.
\<close>

lemma fromSave_js_not_atomic:
  "fromSave_js (js_of_character initial_character)
      (JObj [ (''className'', JStr ''Mago''), (''selectedAbilities'', JNum 5) ])
   = ((js_of_character initial_character)
        \<lparr> js_className := Some (JStr ''Mago''), js_selectedDomains := None \<rparr>,
      Some TypeError)"
  by (simp add: fromSave_js_def get_prop_def new_Set_js_def coalesce_def Let_def
      js_of_character_def initial_character_def js_of_nullable_def)

text \<open>
  C4, as the code has it. Loading an uploaded file is rejected by \<open>loadSave\<close> exactly
  when the file cannot be read or its text is not valid JSON; every valid JSON value is
  resolved as it is, with no check of \<open>className\<close>, \<open>selectedDomains\<close> or
  \<open>selectedAbilities\<close>, and handed to \<open>fromSave\<close>: a JSON object whose
  \<open>selectedAbilities\<close> is absent, or is an array, loads without any error, whatever its
  other fields. When \<open>loadSave\<close> rejects, the handler reports the error and the store is
  left unchanged.
\<close>

theorem loadSave_rejects_iff:
  "((\<exists>e. loadSave f = Inl e) \<longleftrightarrow> f = ReadFailed \<or> f = NotJson)
   \<and> loadSave ReadFailed = Inl Errore_lettura_file
   \<and> loadSave NotJson = Inl File_JSON_non_valido
   \<and> loadSave (Json v) = Inr v
   \<and> (loadSave f = Inl e \<longrightarrow> onLoadFile s f = (s, Some (LoadFailed e)))
   \<and> onLoadFile s (Json v) = (fst (fromSave_js s v), map_option Threw (snd (fromSave_js s v)))
   \<and> (map_of kvs ''selectedAbilities'' = None \<or> map_of kvs ''selectedAbilities'' = Some (JArr xs)
        \<longrightarrow> snd (onLoadFile s (Json (JObj kvs))) = None)"
proof -
  have "snd (onLoadFile s (Json (JObj kvs))) = None"
    if "map_of kvs ''selectedAbilities'' = None \<or> map_of kvs ''selectedAbilities'' = Some (JArr xs)"
    using that
    by (auto simp: onLoadFile_def loadSave_def fromSave_js_def get_prop_def new_Set_js_def Let_def)
  moreover have "((\<exists>e. loadSave f = Inl e) \<longleftrightarrow> f = ReadFailed \<or> f = NotJson)
   \<and> (loadSave f = Inl e \<longrightarrow> onLoadFile s f = (s, Some (LoadFailed e)))"
    by (cases f) (simp_all add: loadSave_def onLoadFile_def)
  moreover have "onLoadFile s (Json v) = (fst (fromSave_js s v), map_option Threw (snd (fromSave_js s v)))"
    by (simp add: loadSave_def onLoadFile_def split: prod.splits)
  ultimately show ?thesis by (simp add: loadSave_def)
qed

theorem loadSave_rejects_iff_witness:
  "loadSave NotJson = Inl File_JSON_non_valido
   \<and> onLoadFile (js_of_character example_state) NotJson
        = (js_of_character example_state, Some (LoadFailed File_JSON_non_valido))
   \<and> loadSave (Json example_upload) = Inr example_upload
   \<and> map_of [(''selectedAbilities'', JArr [JStr ''a1'', JStr ''a1''])] ''selectedAbilities''
        = Some (JArr [JStr ''a1'', JStr ''a1''])
   \<and> snd (onLoadFile (js_of_character example_state) (Json example_upload_unnamed)) = None"
proof -
  note r = loadSave_rejects_iff
    [where f = NotJson and v = example_upload and e = File_JSON_non_valido
       and s = "js_of_character example_state"
       and kvs = "[(''selectedAbilities'', JArr [JStr ''a1'', JStr ''a1''])]"
       and xs = "[JStr ''a1'', JStr ''a1'']"]
  from r have rej: "loadSave NotJson = Inl File_JSON_non_valido" by simp
  with r have un: "onLoadFile (js_of_character example_state) NotJson
        = (js_of_character example_state, Some (LoadFailed File_JSON_non_valido))"
    by simp
  from r have res: "loadSave (Json example_upload) = Inr example_upload" by simp
  have key: "map_of [(''selectedAbilities'', JArr [JStr ''a1'', JStr ''a1''])] ''selectedAbilities''
        = Some (JArr [JStr ''a1'', JStr ''a1''])"
    by simp
  with r have "snd (onLoadFile (js_of_character example_state) (Json example_upload_unnamed)) = None"
    by (simp add: example_upload_unnamed_def)
  with rej un res key show ?thesis by blast
qed

end
